theory Spec2Isabelle
  imports Main
begin

section \<open>StudySnap: data model (types.ts)\<close>

text \<open>
  Strings are byte lists: text outside ASCII is written as its UTF-8 bytes.
  The record fields keep the names of the TypeScript interfaces, except that the two
  \<open>id\<close> fields are called \<open>item_id\<close> and \<open>set_id\<close> (\<open>id\<close> is the identity
  function of HOL).

  \<open>generatedHints\<close> is a JavaScript array that may have holes and, after a trip
  through JSON, \<open>null\<close> entries. Both read as a falsy value, so a position is
  \<open>None\<close> (hole, \<open>undefined\<close> or \<open>null\<close>) or \<open>Some text\<close>.
\<close>

record QuizItem =
  item_id :: string
  question :: string
  answer :: string
  originalContext :: "string option"
  generatedHints :: "string option list"

record QuizSet =
  set_id :: string
  title :: string
  createdAt :: nat
  items :: "QuizItem list"

datatype AppState = IDLE | PROCESSING | QUIZ_ACTIVE | COMPLETED | ERROR

section \<open>JavaScript primitives used by the code\<close>

text \<open>
  A thrown exception is a value; the code only ever reads its \<open>message\<close>.
\<close>

datatype error = Error (message: string)

text \<open>The values \<open>JSON.parse\<close> can return, and \<open>Array.isArray\<close> on them.\<close>

datatype js_value =
    JNull
  | JBool bool
  | JNumber int
  | JString string
  | JArray "js_value list"
  | JObject "(string \<times> js_value) list"


text \<open>\<open>Array.prototype.findIndex\<close>: the first index whose element satisfies the
  predicate, \<open>-1\<close> when there is none.\<close>

fun findIndex :: "('a \<Rightarrow> bool) \<Rightarrow> 'a list \<Rightarrow> int" where
  "findIndex p [] = -1"
| "findIndex p (x # xs) =
     (if p x then 0
      else (let i = findIndex p xs in if i < 0 then -1 else i + 1))"

text \<open>\<open>localStorage\<close>: a map from keys to strings. Quota and access faults of the
  browser are outside the model.\<close>

type_synonym localStorage = "string \<rightharpoonup> string"

definition getItem :: "localStorage \<Rightarrow> string \<Rightarrow> string option" where
  "getItem ls k = ls k"

definition setItem :: "string \<Rightarrow> string \<Rightarrow> localStorage \<Rightarrow> localStorage" where
  "setItem k v ls = ls(k \<mapsto> v)"

text \<open>
  \<open>JSON.parse\<close> and \<open>JSON.stringify\<close> are taken as parameters, at the types the code
  uses them at: \<open>parse_history\<close> is \<open>JSON.parse\<close> on the stored blob, read as
  \<open>QuizSet[]\<close> as \<open>loadHistory\<close> declares (\<open>Inl\<close> is the exception it throws);
  \<open>stringify_history\<close> is \<open>JSON.stringify\<close> on a history; \<open>parse_quiz\<close> is
  \<open>JSON.parse\<close> on the text of the remote answer (see the generation client).
\<close>

record raw_item =
  raw_question :: string
  raw_answer :: string
  raw_originalContext :: "string option"

text \<open>The parsed remote answer \<open>data\<close>: \<open>data.title\<close> (the empty string when
  absent, both are falsy) and \<open>data.items\<close> (\<open>Inl\<close> the TypeError that
  \<open>data.items.map\<close> throws when \<open>data.items\<close> is not an array).\<close>

record raw_data =
  data_title :: string
  data_items :: "error + raw_item list"

record JSON =
  parse_history :: "string \<Rightarrow> error + QuizSet list"
  stringify_history :: "QuizSet list \<Rightarrow> string"
  parse_quiz :: "string \<Rightarrow> error + raw_data"

section \<open>Persistence store (services/storage.ts)\<close>

definition STORAGE_KEY :: string where
  "STORAGE_KEY = ''studysnap_history_v1''"

text \<open>The body of the \<open>try\<close> block of \<open>loadHistory\<close>: an absent key and the empty
  string are falsy and give the empty history, anything else is parsed.\<close>

definition loadHistory_try :: "JSON \<Rightarrow> localStorage \<Rightarrow> error + QuizSet list" where
  "loadHistory_try J ls =
     (case getItem ls STORAGE_KEY of
        None \<Rightarrow> Inr []
      | Some json \<Rightarrow> if json \<noteq> [] then parse_history J json else Inr [])"

text \<open>\<open>loadHistory\<close>: the \<open>catch\<close> clause logs and returns the empty history.\<close>

definition loadHistory :: "JSON \<Rightarrow> localStorage \<Rightarrow> QuizSet list" where
  "loadHistory J ls =
     (case loadHistory_try J ls of Inr history \<Rightarrow> history | Inl e \<Rightarrow> [])"

definition saveQuizSet :: "JSON \<Rightarrow> QuizSet \<Rightarrow> localStorage \<Rightarrow> localStorage" where
  "saveQuizSet J quizSet ls =
     (let history = loadHistory J ls;
          existingIndex = findIndex (\<lambda>q. set_id q = set_id quizSet) history;
          history' = (if existingIndex \<ge> 0 then history[nat existingIndex := quizSet]
                      else quizSet # history)
      in setItem STORAGE_KEY (stringify_history J history') ls)"

text \<open>\<open>deleteQuizSet\<close> returns the filtered history and the new store.\<close>

definition deleteQuizSet :: "JSON \<Rightarrow> string \<Rightarrow> localStorage \<Rightarrow> QuizSet list \<times> localStorage" where
  "deleteQuizSet J ident ls =
     (let history = filter (\<lambda>q. set_id q \<noteq> ident) (loadHistory J ls)
      in (history, setItem STORAGE_KEY (stringify_history J history) ls))"

definition updateQuizSetItem :: "JSON \<Rightarrow> string \<Rightarrow> QuizItem \<Rightarrow> localStorage \<Rightarrow> localStorage" where
  "updateQuizSetItem J setId updatedItem ls =
     (let history = loadHistory J ls;
          setIndex = findIndex (\<lambda>s. set_id s = setId) history
      in if setIndex \<ge> 0 then
           (let target = history ! nat setIndex;
                itemIndex = findIndex (\<lambda>i. item_id i = item_id updatedItem) (items target)
            in if itemIndex \<ge> 0 then
                 setItem STORAGE_KEY
                   (stringify_history J
                      (history[nat setIndex :=
                         target\<lparr>items := (items target)[nat itemIndex := updatedItem]\<rparr>]))
                   ls
               else ls)
         else ls)"

text \<open>A history survives the trip through the store when its serialisation is a
  non-empty string that parses back to it.\<close>

definition roundtrips :: "JSON \<Rightarrow> QuizSet list \<Rightarrow> bool" where
  "roundtrips J h \<longleftrightarrow>
     stringify_history J h \<noteq> [] \<and> parse_history J (stringify_history J h) = Inr h"

subsection \<open>\<open>loadHistory\<close> on arbitrary stored content\<close>







section \<open>Quiz generation client (services/geminiService.ts)\<close>

text \<open>
  The remote model is a parameter: a function from the request to what awaiting
  \<open>ai.models.generateContent\<close> gives, a rejection or a response whose \<open>text\<close> may
  be undefined. The prompt and the response schema are constants of the request and
  are not part of the model; \<open>Date.now()\<close> is the parameter \<open>now\<close>.
\<close>

datatype remote_response = Rejects error | Responds "string option"

text \<open>\<open>String.prototype.split\<close> on a one-character separator.\<close>

fun split :: "char \<Rightarrow> string \<Rightarrow> string list" where
  "split sep [] = [[]]"
| "split sep (c # cs) =
     (case split sep cs of
        [] \<Rightarrow> (if c = sep then [[], []] else [[c]])
      | p # ps \<Rightarrow> (if c = sep then [] # p # ps else (c # p) # ps))"

text \<open>\<open>base64Image.split(',')[1] || base64Image\<close>\<close>

definition cleanBase64 :: "string \<Rightarrow> string" where
  "cleanBase64 base64Image =
     (case split (CHR '','') base64Image of
        _ # second # _ \<Rightarrow> (if second \<noteq> [] then second else base64Image)
      | _ \<Rightarrow> base64Image)"

text \<open>The decimal digits of a number, as a template literal prints it.\<close>

fun digits :: "nat \<Rightarrow> string" where
  "digits n =
     (if n < 10 then [char_of (48 + n)]
      else digits (n div 10) @ [char_of (48 + n mod 10)])"

declare digits.simps [simp del]

definition no_response_text :: error where
  "no_response_text = Error ''No response text generated.''"

text \<open>The item built by the callback of \<open>data.items.map\<close>.\<close>

definition make_item :: "nat \<Rightarrow> nat \<Rightarrow> raw_item \<Rightarrow> QuizItem" where
  "make_item timestamp index item =
     \<lparr>item_id = ''q-'' @ digits timestamp @ ''-'' @ digits index,
      question = raw_question item,
      answer = raw_answer item,
      originalContext = raw_originalContext item,
      generatedHints = []\<rparr>"

text \<open>\<open>generateQuizFromImage\<close>: the \<open>catch\<close> clause logs and rethrows, so every
  exception of the body is the result.\<close>

definition generateQuizFromImage ::
    "JSON \<Rightarrow> (string \<Rightarrow> remote_response) \<Rightarrow> nat \<Rightarrow> string \<Rightarrow> error + QuizSet" where
  "generateQuizFromImage J generateContent now base64Image =
     (case generateContent (cleanBase64 base64Image) of
        Rejects e \<Rightarrow> Inl e
      | Responds None \<Rightarrow> Inl no_response_text
      | Responds (Some text) \<Rightarrow>
          if text \<noteq> [] then
            (case parse_quiz J text of
               Inl e \<Rightarrow> Inl e
             | Inr data \<Rightarrow>
                 (let timestamp = now in
                  case data_items data of
                    Inl e \<Rightarrow> Inl e
                  | Inr raw \<Rightarrow>
                      Inr \<lparr>set_id = ''set-'' @ digits timestamp,
                           title = (if data_title data \<noteq> [] then data_title data
                                    else ''Study Session''),
                           createdAt = timestamp,
                           items = map (\<lambda>(index, item). make_item timestamp index item)
                                     (enumerate 0 raw)\<rparr>))
          else Inl no_response_text)"

text \<open>The hint request: the prompt pair is chosen by the \<open>switch\<close> on the level,
  the context is \<open>context || 'N/A'\<close>.\<close>

datatype prompt = Conceptual | Attribute | Structural | Generic

definition prompt_for :: "nat \<Rightarrow> prompt" where
  "prompt_for level =
     (if level = 1 then Conceptual
      else if level = 2 then Attribute
      else if level = 3 then Structural
      else Generic)"

record hint_request =
  req_prompt :: prompt
  req_question :: string
  req_answer :: string
  req_context :: string

definition hint_fallback :: string where
  "hint_fallback =
    [CHR 0xE3, CHR 0x82, CHR 0x88, CHR 0xE3, CHR 0x81, CHR 0x8F, CHR 0xE8, CHR 0x80, CHR 0x83,
     CHR 0xE3, CHR 0x81, CHR 0x88, CHR 0xE3, CHR 0x81, CHR 0xA6, CHR 0xE3, CHR 0x81, CHR 0xBF,
     CHR 0xE3, CHR 0x81, CHR 0xBE, CHR 0xE3, CHR 0x81, CHR 0x97, CHR 0xE3, CHR 0x82, CHR 0x87,
     CHR 0xE3, CHR 0x81, CHR 0x86, CHR 0xE3, CHR 0x80, CHR 0x82]"

definition hint_failed :: string where
  "hint_failed =
    [CHR 0xE3, CHR 0x83, CHR 0x92, CHR 0xE3, CHR 0x83, CHR 0xB3, CHR 0xE3, CHR 0x83, CHR 0x88,
     CHR 0xE3, CHR 0x81, CHR 0xAE, CHR 0xE5, CHR 0x8F, CHR 0x96, CHR 0xE5, CHR 0xBE, CHR 0x97,
     CHR 0xE3, CHR 0x81, CHR 0xAB, CHR 0xE5, CHR 0xA4, CHR 0xB1, CHR 0xE6, CHR 0x95, CHR 0x97,
     CHR 0xE3, CHR 0x81, CHR 0x97, CHR 0xE3, CHR 0x81, CHR 0xBE, CHR 0xE3, CHR 0x81, CHR 0x97,
     CHR 0xE3, CHR 0x81, CHR 0x9F, CHR 0xE3, CHR 0x80, CHR 0x82]"

text \<open>\<open>generateInteractiveHint\<close> never rejects. The result is paired with the
  remote calls it made, in order.\<close>

definition generateInteractiveHint ::
    "(hint_request \<Rightarrow> remote_response) \<Rightarrow> string \<Rightarrow> string \<Rightarrow> nat \<Rightarrow> string option
       \<Rightarrow> string \<times> hint_request list" where
  "generateInteractiveHint generateContent q a level context =
     (let request =
            \<lparr>req_prompt = prompt_for level, req_question = q, req_answer = a,
             req_context = (case context of
                              None \<Rightarrow> ''N/A''
                            | Some c \<Rightarrow> if c \<noteq> [] then c else ''N/A'')\<rparr>
      in (case generateContent request of
            Rejects e \<Rightarrow> hint_failed
          | Responds None \<Rightarrow> hint_fallback
          | Responds (Some text) \<Rightarrow> if text \<noteq> [] then text else hint_fallback,
          [request]))"

section \<open>Session controller (App.tsx)\<close>

record app =
  appState :: AppState
  currentQuizSet :: "QuizSet option"
  currentQuestionIndex :: nat
  history :: "QuizSet list"
  loadingMessage :: string
  error :: "string option"

definition initial_app :: app where
  "initial_app =
     \<lparr>appState = IDLE, currentQuizSet = None, currentQuestionIndex = 0,
      history = [], loadingMessage = [], error = None\<rparr>"

text \<open>The effect with dependency \<open>[appState]\<close>: after a handler that changed
  \<open>appState\<close>, the displayed history is reloaded from the store.\<close>

definition reload_effect :: "JSON \<Rightarrow> AppState \<Rightarrow> app \<times> localStorage \<Rightarrow> app \<times> localStorage" where
  "reload_effect J before w =
     (case w of (a, ls) \<Rightarrow>
        if appState a \<noteq> before then (a\<lparr>history := loadHistory J ls\<rparr>, ls) else (a, ls))"

definition analysing_message :: string where
  "analysing_message =
    [CHR 0xE7, CHR 0x94, CHR 0xBB, CHR 0xE5, CHR 0x83, CHR 0x8F, CHR 0xE3, CHR 0x82, CHR 0x92,
     CHR 0xE8, CHR 0xA7, CHR 0xA3, CHR 0xE6, CHR 0x9E, CHR 0x90, CHR 0xE3, CHR 0x81, CHR 0x97,
     CHR 0xE3, CHR 0x81, CHR 0xA6, CHR 0xE3, CHR 0x81, CHR 0x84, CHR 0xE3, CHR 0x81, CHR 0xBE,
     CHR 0xE3, CHR 0x81, CHR 0x99, CHR 0x2E, CHR 0x2E, CHR 0x2E]"

definition generating_message :: string where
  "generating_message =
    [CHR 0x41, CHR 0x49, CHR 0xE3, CHR 0x81, CHR 0x8C, CHR 0xE5, CHR 0x95, CHR 0x8F, CHR 0xE9,
     CHR 0xA1, CHR 0x8C, CHR 0xE3, CHR 0x82, CHR 0x92, CHR 0xE7, CHR 0x94, CHR 0x9F, CHR 0xE6,
     CHR 0x88, CHR 0x90, CHR 0xE4, CHR 0xB8, CHR 0xAD, CHR 0x2E, CHR 0x2E, CHR 0x2E]"

definition no_items_error :: error where
  "no_items_error = Error
    [CHR 0xE5, CHR 0x95, CHR 0x8F, CHR 0xE9, CHR 0xA1, CHR 0x8C, CHR 0xE3, CHR 0x81, CHR 0x8C,
     CHR 0xE7, CHR 0x94, CHR 0x9F, CHR 0xE6, CHR 0x88, CHR 0x90, CHR 0xE3, CHR 0x81, CHR 0x95,
     CHR 0xE3, CHR 0x82, CHR 0x8C, CHR 0xE3, CHR 0x81, CHR 0xBE, CHR 0xE3, CHR 0x81, CHR 0x9B,
     CHR 0xE3, CHR 0x82, CHR 0x93, CHR 0xE3, CHR 0x81, CHR 0xA7, CHR 0xE3, CHR 0x81, CHR 0x97,
     CHR 0xE3, CHR 0x81, CHR 0x9F, CHR 0xE3, CHR 0x80, CHR 0x82, CHR 0xE5, CHR 0x88, CHR 0xA5,
     CHR 0xE3, CHR 0x81, CHR 0xAE, CHR 0xE7, CHR 0x94, CHR 0xBB, CHR 0xE5, CHR 0x83, CHR 0x8F,
     CHR 0xE3, CHR 0x82, CHR 0x92, CHR 0xE8, CHR 0xA9, CHR 0xA6, CHR 0xE3, CHR 0x81, CHR 0x97,
     CHR 0xE3, CHR 0x81, CHR 0xA6, CHR 0xE3, CHR 0x81, CHR 0x8F, CHR 0xE3, CHR 0x81, CHR 0xA0,
     CHR 0xE3, CHR 0x81, CHR 0x95, CHR 0xE3, CHR 0x81, CHR 0x84, CHR 0xE3, CHR 0x80, CHR 0x82]"

definition default_error_message :: string where
  "default_error_message =
    [CHR 0xE3, CHR 0x82, CHR 0xA8, CHR 0xE3, CHR 0x83, CHR 0xA9, CHR 0xE3, CHR 0x83, CHR 0xBC,
     CHR 0xE3, CHR 0x81, CHR 0x8C, CHR 0xE7, CHR 0x99, CHR 0xBA, CHR 0xE7, CHR 0x94, CHR 0x9F,
     CHR 0xE3, CHR 0x81, CHR 0x97, CHR 0xE3, CHR 0x81, CHR 0xBE, CHR 0xE3, CHR 0x81, CHR 0x97,
     CHR 0xE3, CHR 0x81, CHR 0x9F, CHR 0xE3, CHR 0x80, CHR 0x82]"

definition startQuiz :: "QuizSet \<Rightarrow> app \<Rightarrow> app" where
  "startQuiz quizSet a =
     a\<lparr>currentQuizSet := Some quizSet, currentQuestionIndex := 0, appState := QUIZ_ACTIVE\<rparr>"

text \<open>
  \<open>handleImageSelected\<close> in parts: the state updates before the first
  \<open>await\<close>, the message set after the delay, the rest of the \<open>try\<close> block once
  \<open>generateQuizFromImage\<close> has settled with \<open>r\<close>, and the \<open>catch\<close> clause.
  The whole handler runs them in order; the effect runs after each change of
  \<open>appState\<close>.
\<close>

definition handleImageSelected_begin :: "app \<Rightarrow> app" where
  "handleImageSelected_begin a =
     a\<lparr>appState := PROCESSING, loadingMessage := analysing_message, error := None\<rparr>"

definition handleImageSelected_delayed :: "app \<Rightarrow> app" where
  "handleImageSelected_delayed a = a\<lparr>loadingMessage := generating_message\<rparr>"

definition handleImageSelected_try ::
    "JSON \<Rightarrow> error + QuizSet \<Rightarrow> app \<times> localStorage \<Rightarrow> error + app \<times> localStorage" where
  "handleImageSelected_try J r w =
     (case w of (a, ls) \<Rightarrow>
        (case r of
           Inl e \<Rightarrow> Inl e
         | Inr newQuizSet \<Rightarrow>
             if length (items newQuizSet) = 0 then Inl no_items_error
             else (let ls' = saveQuizSet J newQuizSet ls;
                       a' = a\<lparr>history := loadHistory J ls'\<rparr>
                   in Inr (startQuiz newQuizSet a', ls'))))"

definition handleImageSelected_settle ::
    "JSON \<Rightarrow> error + QuizSet \<Rightarrow> app \<times> localStorage \<Rightarrow> app \<times> localStorage" where
  "handleImageSelected_settle J r w =
     (case handleImageSelected_try J r w of
        Inr w' \<Rightarrow> w'
      | Inl e \<Rightarrow>
          (case w of (a, ls) \<Rightarrow>
             (a\<lparr>error := Some (if message e \<noteq> [] then message e else default_error_message),
                appState := ERROR\<rparr>, ls)))"

definition handleImageSelected ::
    "JSON \<Rightarrow> (string \<Rightarrow> remote_response) \<Rightarrow> nat \<Rightarrow> string \<Rightarrow> app \<times> localStorage
       \<Rightarrow> app \<times> localStorage" where
  "handleImageSelected J generateContent now base64 w =
     (case w of (a, ls) \<Rightarrow>
        (let w1 = reload_effect J (appState a) (handleImageSelected_begin a, ls);
             w2 = (handleImageSelected_delayed (fst w1), snd w1);
             w3 = handleImageSelected_settle J
                    (generateQuizFromImage J generateContent now base64) w2
         in reload_effect J (appState (fst w2)) w3))"

definition handleHistorySelect :: "QuizSet \<Rightarrow> app \<Rightarrow> app" where
  "handleHistorySelect quizSet a = startQuiz quizSet a"

definition handleDeleteHistory ::
    "JSON \<Rightarrow> string \<Rightarrow> app \<times> localStorage \<Rightarrow> app \<times> localStorage" where
  "handleDeleteHistory J ident w =
     (case w of (a, ls) \<Rightarrow>
        (case deleteQuizSet J ident ls of (updated, ls') \<Rightarrow> (a\<lparr>history := updated\<rparr>, ls')))"

definition handleNextQuestion :: "app \<Rightarrow> app" where
  "handleNextQuestion a =
     (case currentQuizSet a of
        None \<Rightarrow> a
      | Some quizSet \<Rightarrow>
          if int (currentQuestionIndex a) < int (length (items quizSet)) - 1
          then a\<lparr>currentQuestionIndex := currentQuestionIndex a + 1\<rparr>
          else a\<lparr>appState := COMPLETED\<rparr>)"

definition resetApp :: "app \<Rightarrow> app" where
  "resetApp a =
     a\<lparr>appState := IDLE, currentQuizSet := None, currentQuestionIndex := 0, error := None\<rparr>"

text \<open>The handlers that the view of a state wires to a control: \<open>renderIdle\<close> has
  the camera input and, per history entry, select and delete; \<open>renderProcessing\<close> has
  none; \<open>renderQuiz\<close> has the back button and, when there is a current set, the quiz
  card; \<open>renderCompleted\<close> and \<open>renderError\<close> have the home button.\<close>

datatype handler =
    HandleImageSelected | HandleHistorySelect | HandleDeleteHistory
  | ResetApp | HandleNextQuestion | HandleUpdateQuizItem

definition render :: "app \<Rightarrow> handler list" where
  "render a =
     (case appState a of
        IDLE \<Rightarrow> HandleImageSelected #
                 (if length (history a) = 0 then []
                  else [HandleHistorySelect, HandleDeleteHistory])
      | PROCESSING \<Rightarrow> []
      | QUIZ_ACTIVE \<Rightarrow> ResetApp #
                 (case currentQuizSet a of
                    None \<Rightarrow> []
                  | Some _ \<Rightarrow> [HandleNextQuestion, HandleUpdateQuizItem])
      | COMPLETED \<Rightarrow> [ResetApp]
      | ERROR \<Rightarrow> [ResetApp])"

section \<open>Quiz card (components/QuizCard.tsx)\<close>

record card =
  showAnswer :: bool
  currentHintLevel :: nat
  loadingHint :: bool

text \<open>Reading an array position: out of range reads \<open>undefined\<close>. A value is
  truthy when it is a non-empty string.\<close>

definition js_index :: "'a option list \<Rightarrow> nat \<Rightarrow> 'a option" where
  "js_index xs i = (if i < length xs then xs ! i else None)"

definition truthy :: "string option \<Rightarrow> bool" where
  "truthy v = (case v of None \<Rightarrow> False | Some s \<Rightarrow> s \<noteq> [])"

text \<open>Writing an array position: past the end the array grows, with holes.\<close>

definition js_assign :: "'a option list \<Rightarrow> nat \<Rightarrow> 'a \<Rightarrow> 'a option list" where
  "js_assign xs i v =
     (if i < length xs then xs[i := Some v]
      else xs @ replicate (i - length xs) None @ [Some v])"

text \<open>What one run of \<open>handleGetHint\<close> does: the card state after it, the remote
  calls made, and the items passed to \<open>onUpdateItem\<close>.\<close>

record hint_outcome =
  card_after :: card
  remote_calls :: "hint_request list"
  updates :: "QuizItem list"

definition handleGetHint ::
    "(hint_request \<Rightarrow> remote_response) \<Rightarrow> QuizItem \<Rightarrow> card \<Rightarrow> hint_outcome" where
  "handleGetHint generateContent item c =
     (let nextLevel = currentHintLevel c + 1 in
      if nextLevel > 3 then \<lparr>card_after = c, remote_calls = [], updates = []\<rparr>
      else
        (let cachedHint = js_index (generatedHints item) (nextLevel - 1) in
         if truthy cachedHint
         then \<lparr>card_after = c\<lparr>currentHintLevel := nextLevel\<rparr>,
               remote_calls = [], updates = []\<rparr>
         else
           (case generateInteractiveHint generateContent (question item) (answer item)
                   nextLevel (originalContext item) of
              (hintText, calls) \<Rightarrow>
                (let newHints = js_assign (generatedHints item) (nextLevel - 1) hintText;
                     updatedItem = item\<lparr>generatedHints := newHints\<rparr>
                 in \<lparr>card_after = c\<lparr>currentHintLevel := nextLevel, loadingHint := False\<rparr>,
                     remote_calls = calls, updates = [updatedItem]\<rparr>))))"

definition hint_loading_text :: string where
  "hint_loading_text =
    [CHR 0x41, CHR 0x49, CHR 0xE3, CHR 0x81, CHR 0x8C, CHR 0xE3, CHR 0x83, CHR 0x92, CHR 0xE3,
     CHR 0x83, CHR 0xB3, CHR 0xE3, CHR 0x83, CHR 0x88, CHR 0xE3, CHR 0x82, CHR 0x92, CHR 0xE7,
     CHR 0x94, CHR 0x9F, CHR 0xE6, CHR 0x88, CHR 0x90, CHR 0xE3, CHR 0x81, CHR 0x97, CHR 0xE3,
     CHR 0x81, CHR 0xA6, CHR 0xE3, CHR 0x81, CHR 0x84, CHR 0xE3, CHR 0x81, CHR 0xBE, CHR 0xE3,
     CHR 0x81, CHR 0x99, CHR 0x2E, CHR 0x2E, CHR 0x2E]"

definition renderHintContent :: "QuizItem \<Rightarrow> card \<Rightarrow> string option" where
  "renderHintContent item c =
     (if loadingHint c then Some hint_loading_text
      else if currentHintLevel c = 0 then None
      else js_index (generatedHints item) (currentHintLevel c - 1))"

text \<open>The items the program builds: \<open>generateQuizFromImage\<close> creates them with
  \<open>make_item\<close>, and the only later change is the item that \<open>handleGetHint\<close> passes
  to \<open>onUpdateItem\<close>, for any remote model and any card state.\<close>

inductive reachable_item :: "QuizItem \<Rightarrow> bool" where
  created: "reachable_item (make_item timestamp index raw)"
| hinted: "reachable_item item \<Longrightarrow>
           updated \<in> set (updates (handleGetHint generateContent item c)) \<Longrightarrow>
           reachable_item updated"

section \<open>Concrete inputs\<close>

text \<open>Small concrete values on which the theorems below are exercised. The codec
  \<open>demo_JSON\<close> is a lookup table over the histories that occur in them.\<close>

definition item_a :: QuizItem where
  "item_a = \<lparr>item_id = ''q-1-0'', question = ''2 + 2'', answer = ''4'',
             originalContext = None, generatedHints = []\<rparr>"

definition item_a_hinted :: QuizItem where
  "item_a_hinted = item_a\<lparr>generatedHints := [Some ''an even number'']\<rparr>"

definition raw_q :: raw_item where
  "raw_q = \<lparr>raw_question = ''2 + 2'', raw_answer = ''4'', raw_originalContext = None\<rparr>"

definition item_fresh :: QuizItem where
  "item_fresh = make_item 7 0 raw_q"

definition item_fresh_hinted :: QuizItem where
  "item_fresh_hinted = item_fresh\<lparr>generatedHints := [Some ''an even number'']\<rparr>"

definition item_b :: QuizItem where
  "item_b = \<lparr>item_id = ''q-2-0'', question = ''3 * 3'', answer = ''9'',
             originalContext = Some ''squares'', generatedHints = []\<rparr>"

definition set_a :: QuizSet where
  "set_a = \<lparr>set_id = ''set-1'', title = ''Sums'', createdAt = 1, items = [item_a]\<rparr>"

definition set_a_renamed :: QuizSet where
  "set_a_renamed = set_a\<lparr>title := ''Additions''\<rparr>"

definition set_a_hinted :: QuizSet where
  "set_a_hinted = set_a\<lparr>items := [item_a_hinted]\<rparr>"

definition set_b :: QuizSet where
  "set_b = \<lparr>set_id = ''set-2'', title = ''Products'', createdAt = 2, items = [item_b]\<rparr>"

definition set_c :: QuizSet where
  "set_c = \<lparr>set_id = ''set-3'', title = ''Three'', createdAt = 3,
            items = [item_a, item_b, item_a_hinted]\<rparr>"

definition demo_table :: "(string \<times> QuizSet list) list" where
  "demo_table =
     [(''[]'', []),
      (''[a]'', [set_a]),
      (''[b]'', [set_b]),
      (''[b,a]'', [set_b, set_a]),
      (''[b,a-renamed]'', [set_b, set_a_renamed]),
      (''[b,a-hinted]'', [set_b, set_a_hinted])]"

definition demo_quiz :: "string \<Rightarrow> error + raw_data" where
  "demo_quiz text =
     (if text = ''{items:[]}'' then Inr \<lparr>data_title = ''Blank'', data_items = Inr []\<rparr>
      else if text = ''{items:[q]}'' then
        Inr \<lparr>data_title = [],
             data_items = Inr [\<lparr>raw_question = ''2 + 2'', raw_answer = ''4'',
                                 raw_originalContext = None\<rparr>]\<rparr>
      else if text = ''{}'' then
        Inr \<lparr>data_title = [], data_items = Inl (Error ''data.items is undefined'')\<rparr>
      else Inl (Error ''Unexpected token''))"

definition demo_JSON :: JSON where
  "demo_JSON =
     \<lparr>parse_history = (\<lambda>s. case map_of demo_table s of
                                 Some h \<Rightarrow> Inr h
                               | None \<Rightarrow> Inl (Error ''Unexpected token'')),
      stringify_history = (\<lambda>h. case find (\<lambda>entry. snd entry = h) demo_table of
                                     Some entry \<Rightarrow> fst entry
                                   | None \<Rightarrow> ''?''),
      parse_quiz = demo_quiz\<rparr>"


definition store_a :: localStorage where
  "store_a = setItem STORAGE_KEY ''[a]'' Map.empty"

definition store_ba :: localStorage where
  "store_ba = setItem STORAGE_KEY ''[b,a]'' Map.empty"




definition demo_remote :: "string \<Rightarrow> remote_response" where
  "demo_remote data =
     (if data = ''blank'' then Responds (Some ''{items:[]}'')
      else if data = ''page'' then Responds (Some ''{items:[q]}'')
      else if data = ''mute'' then Responds None
      else if data = ''silent'' then Responds (Some [])
      else if data = ''garbled'' then Responds (Some ''{items:'')
      else if data = ''shapeless'' then Responds (Some ''{}'')
      else Rejects (Error ''network down''))"

definition demo_hint_remote :: "hint_request \<Rightarrow> remote_response" where
  "demo_hint_remote request = Responds (Some ''an even number'')"

definition fresh_card :: card where
  "fresh_card = \<lparr>showAnswer = False, currentHintLevel = 0, loadingHint = False\<rparr>"

definition quiz_at :: "QuizSet \<Rightarrow> nat \<Rightarrow> app" where
  "quiz_at quizSet n = (startQuiz quizSet initial_app)\<lparr>currentQuestionIndex := n\<rparr>"

section \<open>Properties of the primitives\<close>

lemma findIndex_ge_m1: "findIndex p xs \<ge> -1"
  by (induction xs) (auto simp: Let_def)

lemma findIndex_neg_iff: "findIndex p xs < 0 \<longleftrightarrow> (\<forall>x \<in> set xs. \<not> p x)"
  by (induction xs) (auto simp: Let_def)

lemma findIndex_found:
  "findIndex p xs \<ge> 0 \<Longrightarrow>
     nat (findIndex p xs) < length xs \<and> p (xs ! nat (findIndex p xs)) \<and>
     (\<forall>j < nat (findIndex p xs). \<not> p (xs ! j))"
proof (induction xs)
  case Nil
  then show ?case by simp
next
  case (Cons x xs)
  show ?case
  proof (cases "p x")
    case True
    then show ?thesis by simp
  next
    case False
    with Cons.prems have ge: "findIndex p xs \<ge> 0"
      by (auto simp: Let_def split: if_splits)
    then have eq: "findIndex p (x # xs) = findIndex p xs + 1"
      using False by (simp add: Let_def)
    have n: "nat (findIndex p xs + 1) = Suc (nat (findIndex p xs))"
      using ge by simp
    from Cons.IH [OF ge] show ?thesis
      unfolding eq n using False by (auto simp: less_Suc_eq_0_disj)
  qed
qed

lemma loadHistory_setItem:
  "roundtrips J h \<Longrightarrow> loadHistory J (setItem STORAGE_KEY (stringify_history J h) ls) = h"
  by (simp add: loadHistory_def loadHistory_try_def getItem_def setItem_def roundtrips_def)

lemma findIndex_absent: "x \<notin> set (map f xs) \<Longrightarrow> findIndex (\<lambda>q. f q = x) xs < 0"
  by (simp add: findIndex_neg_iff) auto

lemma findIndex_present: "x \<in> set (map f xs) \<Longrightarrow> findIndex (\<lambda>q. f q = x) xs \<ge> 0"
  using findIndex_neg_iff [of "\<lambda>q. f q = x" xs] by (auto simp: not_less [symmetric])

lemma filter_distinct_length:
  "distinct (map f xs) \<Longrightarrow> x \<in> set (map f xs) \<Longrightarrow>
     Suc (length (filter (\<lambda>q. f q \<noteq> x) xs)) = length xs"
proof (induction xs)
  case Nil
  then show ?case by simp
next
  case (Cons y ys)
  show ?case
  proof (cases "f y = x")
    case True
    with Cons.prems have "x \<notin> set (map f ys)" by auto
    then have "filter (\<lambda>q. f q \<noteq> x) ys = ys"
      by (auto simp: filter_id_conv)
    with True show ?thesis by simp
  next
    case False
    with Cons show ?thesis by auto
  qed
qed

lemma filter_absent: "x \<notin> set (map f xs) \<Longrightarrow> filter (\<lambda>q. f q \<noteq> x) xs = xs"
  by (auto simp: filter_id_conv)

lemma distinct_map_index:
  "distinct (map f xs) \<Longrightarrow> i < length xs \<Longrightarrow> j < length xs \<Longrightarrow> f (xs ! i) = f (xs ! j) \<Longrightarrow> i = j"
  by (metis distinct_conv_nth length_map nth_map)

subsection \<open>The store keeps set ids unique\<close>

text \<open>Each operation of the store either leaves it as it is or writes a history
  without duplicate ids, when the history it read had none.\<close>

lemma saveQuizSet_keeps_distinct:
  assumes "distinct (map set_id (loadHistory J ls))"
  shows "\<exists>h. saveQuizSet J S ls = setItem STORAGE_KEY (stringify_history J h) ls
           \<and> distinct (map set_id h)"
proof (cases "findIndex (\<lambda>q. set_id q = set_id S) (loadHistory J ls) \<ge> 0")
  case True
  from findIndex_found [OF True]
  have "(map set_id (loadHistory J ls))
          [nat (findIndex (\<lambda>q. set_id q = set_id S) (loadHistory J ls)) := set_id S]
        = map set_id (loadHistory J ls)"
    by (simp add: list_update_same_conv)
  then have "distinct (map set_id ((loadHistory J ls)
          [nat (findIndex (\<lambda>q. set_id q = set_id S) (loadHistory J ls)) := S]))"
    using assms by (simp add: map_update)
  with True show ?thesis
    by (auto simp: saveQuizSet_def Let_def)
next
  case False
  then have "\<forall>x \<in> set (loadHistory J ls). set_id x \<noteq> set_id S"
    using findIndex_neg_iff [of "\<lambda>q. set_id q = set_id S" "loadHistory J ls"] by simp
  then have "distinct (map set_id (S # loadHistory J ls))"
    using assms by auto
  with False show ?thesis
    unfolding saveQuizSet_def Let_def by (simp only: if_False) blast
qed

lemma deleteQuizSet_keeps_distinct:
  "distinct (map set_id (loadHistory J ls)) \<Longrightarrow>
     distinct (map set_id (fst (deleteQuizSet J X ls)))"
  by (simp add: deleteQuizSet_def Let_def distinct_map_filter)

lemma updateQuizSetItem_keeps_distinct:
  assumes "distinct (map set_id (loadHistory J ls))"
  shows "updateQuizSetItem J setId it ls = ls
       \<or> (\<exists>h. updateQuizSetItem J setId it ls = setItem STORAGE_KEY (stringify_history J h) ls
             \<and> distinct (map set_id h))"
proof (cases "findIndex (\<lambda>q. set_id q = setId) (loadHistory J ls) \<ge> 0")
  case False
  then show ?thesis by (simp add: updateQuizSetItem_def Let_def)
next
  case True
  define i where "i = nat (findIndex (\<lambda>q. set_id q = setId) (loadHistory J ls))"
  have "i < length (loadHistory J ls)"
    using findIndex_found [OF True] by (simp add: i_def)
  then have "\<And>its. map set_id ((loadHistory J ls)[i := (loadHistory J ls ! i)\<lparr>items := its\<rparr>])
        = map set_id (loadHistory J ls)"
    by (simp add: map_update list_update_same_conv)
  with assms have "\<And>its. distinct (map set_id
        ((loadHistory J ls)[i := (loadHistory J ls ! i)\<lparr>items := its\<rparr>]))"
    by simp
  then show ?thesis
    unfolding updateQuizSetItem_def Let_def i_def [symmetric] by (auto simp del: distinct_map)
qed

subsection \<open>Facts about the concrete inputs\<close>

lemma demo_load_a: "loadHistory demo_JSON store_a = [set_a]"
  by code_simp

lemma demo_load_ba: "loadHistory demo_JSON store_ba = [set_b, set_a]"
  by code_simp

lemma demo_roundtrips:
  "roundtrips demo_JSON [set_b, set_a]"
  "roundtrips demo_JSON [set_b, set_a_renamed]"
  "roundtrips demo_JSON [set_b, set_a_hinted]"
  "roundtrips demo_JSON [set_b]"
  by code_simp+

lemma demo_delete:
  "fst (deleteQuizSet demo_JSON ''set-1'' store_ba) = [set_b]"
  "fst (deleteQuizSet demo_JSON ''set-9'' store_ba) = [set_b, set_a]"
  by code_simp+

lemma demo_ids_ba:
  "''set-1'' \<in> set (map set_id (loadHistory demo_JSON store_ba))"
  "distinct (map set_id (loadHistory demo_JSON store_ba))"
  "''set-9'' \<notin> set (map set_id (loadHistory demo_JSON store_ba))"
  unfolding demo_load_ba by (simp_all add: set_a_def set_b_def)

lemma demo_quiz_at:
  "appState (quiz_at set_c 0) = QUIZ_ACTIVE" "currentQuizSet (quiz_at set_c 0) = Some set_c"
  "currentQuestionIndex (quiz_at set_c 0) = 0"
  "appState (quiz_at set_c 2) = QUIZ_ACTIVE" "currentQuizSet (quiz_at set_c 2) = Some set_c"
  "currentQuestionIndex (quiz_at set_c 2) = 2"
  "length (items set_c) = 3"
  by (simp_all add: quiz_at_def startQuiz_def initial_app_def set_c_def)



lemma demo_generate:
  "demo_remote (cleanBase64 ''mute'') = Responds None"
  "demo_remote (cleanBase64 ''silent'') = Responds (Some [])"
  "demo_remote (cleanBase64 ''offline'') = Rejects (Error ''network down'')"
  "demo_remote (cleanBase64 ''garbled'') = Responds (Some ''{items:'')"
  "parse_quiz demo_JSON ''{items:'' = Inl (Error ''Unexpected token'')"
  "demo_remote (cleanBase64 ''shapeless'') = Responds (Some ''{}'')"
  "parse_quiz demo_JSON ''{}'' =
     Inr \<lparr>data_title = [], data_items = Inl (Error ''data.items is undefined'')\<rparr>"
  "demo_remote (cleanBase64 ''blank'') = Responds (Some ''{items:[]}'')"
  "parse_quiz demo_JSON ''{items:[]}'' = Inr \<lparr>data_title = ''Blank'', data_items = Inr []\<rparr>"
  "demo_remote (cleanBase64 ''page'') = Responds (Some ''{items:[q]}'')"
  "parse_quiz demo_JSON ''{items:[q]}'' = Inr \<lparr>data_title = [], data_items = Inr [raw_q]\<rparr>"
  by code_simp+

lemma demo_hint:
  "updates (handleGetHint demo_hint_remote item_fresh fresh_card) = [item_fresh_hinted]"
  "js_index (generatedHints item_fresh_hinted) (1 - 1) = Some ''an even number''"
  "currentHintLevel fresh_card + 1 = 1"
  "\<not> loadingHint fresh_card"
  by code_simp+

lemma demo_reachable: "reachable_item item_fresh_hinted"
proof -
  have "reachable_item item_fresh"
    unfolding item_fresh_def by (rule reachable_item.created)
  moreover have "item_fresh_hinted
      \<in> set (updates (handleGetHint demo_hint_remote item_fresh fresh_card))"
    by (simp add: demo_hint(1))
  ultimately show ?thesis by (rule reachable_item.hinted)
qed

section \<open>Saving a set\<close>

text \<open>
  Claim C3. For every persisted history \<open>H\<close> (what \<open>loadHistory\<close> reads from the
  store) and every set \<open>S\<close> whose id does not occur in \<open>H\<close>, \<open>saveQuizSet S\<close> followed
  by \<open>loadHistory\<close> yields \<open>S # H\<close>: one entry more, \<open>S\<close> at position 0, the previous
  entries after it in their order. The codec is required to round-trip the history
  that is written.
\<close>

theorem save_new_set:
  assumes "set_id S \<notin> set (map set_id (loadHistory J ls))"
    and "roundtrips J (S # loadHistory J ls)"
  shows "loadHistory J (saveQuizSet J S ls) = S # loadHistory J ls
       \<and> length (loadHistory J (saveQuizSet J S ls)) = length (loadHistory J ls) + 1
       \<and> loadHistory J (saveQuizSet J S ls) ! 0 = S
       \<and> tl (loadHistory J (saveQuizSet J S ls)) = loadHistory J ls"
proof -
  have "findIndex (\<lambda>q. set_id q = set_id S) (loadHistory J ls) < 0"
    using assms(1) by (rule findIndex_absent)
  then have "saveQuizSet J S ls =
      setItem STORAGE_KEY (stringify_history J (S # loadHistory J ls)) ls"
    by (simp add: saveQuizSet_def Let_def)
  then have "loadHistory J (saveQuizSet J S ls) = S # loadHistory J ls"
    using assms(2) by (simp add: loadHistory_setItem)
  then show ?thesis by simp
qed

theorem save_new_set_witness:
  "set_id set_b \<notin> set (map set_id (loadHistory demo_JSON store_a))
   \<and> roundtrips demo_JSON (set_b # loadHistory demo_JSON store_a)
   \<and> loadHistory demo_JSON (saveQuizSet demo_JSON set_b store_a) = [set_b, set_a]"
proof -
  have a: "set_id set_b \<notin> set (map set_id (loadHistory demo_JSON store_a))"
    unfolding demo_load_a by (simp add: set_a_def set_b_def)
  have r: "roundtrips demo_JSON (set_b # loadHistory demo_JSON store_a)"
    unfolding demo_load_a by (rule demo_roundtrips)
  from save_new_set [OF a r] a r show ?thesis
    unfolding demo_load_a by simp
qed

text \<open>
  Claim C4. For every persisted history \<open>H\<close> that contains an entry with the id of
  \<open>S\<close>, \<open>saveQuizSet S\<close> writes \<open>H\<close> with the entry at the first such position \<open>i\<close>
  replaced by \<open>S\<close>: the length is that of \<open>H\<close>, position \<open>i\<close> holds \<open>S\<close>, every other
  position is unchanged.
\<close>

theorem save_existing_set:
  assumes "set_id S \<in> set (map set_id (loadHistory J ls))"
  shows "\<exists>i < length (loadHistory J ls).
           set_id (loadHistory J ls ! i) = set_id S
         \<and> (\<forall>j < i. set_id (loadHistory J ls ! j) \<noteq> set_id S)
         \<and> saveQuizSet J S ls =
             setItem STORAGE_KEY (stringify_history J ((loadHistory J ls)[i := S])) ls
         \<and> (roundtrips J ((loadHistory J ls)[i := S]) \<longrightarrow>
              loadHistory J (saveQuizSet J S ls) = (loadHistory J ls)[i := S]
            \<and> length (loadHistory J (saveQuizSet J S ls)) = length (loadHistory J ls)
            \<and> loadHistory J (saveQuizSet J S ls) ! i = S
            \<and> (\<forall>j < length (loadHistory J ls). j \<noteq> i \<longrightarrow>
                 loadHistory J (saveQuizSet J S ls) ! j = loadHistory J ls ! j))"
proof -
  define H where "H = loadHistory J ls"
  define i where "i = nat (findIndex (\<lambda>q. set_id q = set_id S) H)"
  have ge: "findIndex (\<lambda>q. set_id q = set_id S) H \<ge> 0"
    using assms unfolding H_def by (rule findIndex_present)
  from findIndex_found [OF ge]
  have i: "i < length H" "set_id (H ! i) = set_id S" "\<forall>j < i. set_id (H ! j) \<noteq> set_id S"
    by (simp_all add: i_def)
  have s: "saveQuizSet J S ls = setItem STORAGE_KEY (stringify_history J (H[i := S])) ls"
    using ge by (simp add: saveQuizSet_def Let_def H_def i_def)
  have "roundtrips J (H[i := S]) \<longrightarrow>
          loadHistory J (saveQuizSet J S ls) = H[i := S]
        \<and> length (loadHistory J (saveQuizSet J S ls)) = length H
        \<and> loadHistory J (saveQuizSet J S ls) ! i = S
        \<and> (\<forall>j < length H. j \<noteq> i \<longrightarrow> loadHistory J (saveQuizSet J S ls) ! j = H ! j)"
    using i(1) by (simp add: s loadHistory_setItem)
  with i s show ?thesis unfolding H_def by blast
qed

theorem save_existing_set_witness:
  "set_id set_a_renamed \<in> set (map set_id (loadHistory demo_JSON store_ba))
   \<and> loadHistory demo_JSON (saveQuizSet demo_JSON set_a_renamed store_ba)
       = [set_b, set_a_renamed]"
proof -
  have a: "set_id set_a_renamed \<in> set (map set_id (loadHistory demo_JSON store_ba))"
    unfolding demo_load_ba by (simp add: set_a_def set_a_renamed_def set_b_def)
  from save_existing_set [OF a] obtain i where
    i: "i < length (loadHistory demo_JSON store_ba)"
       "set_id (loadHistory demo_JSON store_ba ! i) = set_id set_a_renamed"
    and r: "roundtrips demo_JSON ((loadHistory demo_JSON store_ba)[i := set_a_renamed]) \<longrightarrow>
       loadHistory demo_JSON (saveQuizSet demo_JSON set_a_renamed store_ba)
         = (loadHistory demo_JSON store_ba)[i := set_a_renamed]"
    by blast
  have "i = 1"
    using i unfolding demo_load_ba
    by (cases i) (auto simp: set_a_def set_a_renamed_def set_b_def)
  with r demo_roundtrips(2) a show ?thesis
    unfolding demo_load_ba by simp
qed

section \<open>Deleting a set\<close>

text \<open>
  Claim C5. For every persisted history \<open>H\<close> and id \<open>X\<close>, \<open>deleteQuizSet X\<close> returns
  \<open>H\<close> without the entries of id \<open>X\<close> and writes that sequence to the store: no entry
  of the result has id \<open>X\<close>; a following \<open>loadHistory\<close> yields the returned sequence
  (the codec round-tripping it); the length drops by exactly 1 when \<open>X\<close> was present
  and the ids of \<open>H\<close> are distinct, and nothing changes when \<open>X\<close> was absent.
\<close>

theorem delete_set:
  "fst (deleteQuizSet J X ls) = filter (\<lambda>q. set_id q \<noteq> X) (loadHistory J ls)
   \<and> X \<notin> set (map set_id (fst (deleteQuizSet J X ls)))
   \<and> snd (deleteQuizSet J X ls) =
       setItem STORAGE_KEY (stringify_history J (fst (deleteQuizSet J X ls))) ls
   \<and> (roundtrips J (fst (deleteQuizSet J X ls)) \<longrightarrow>
        loadHistory J (snd (deleteQuizSet J X ls)) = fst (deleteQuizSet J X ls))
   \<and> (X \<in> set (map set_id (loadHistory J ls)) \<and> distinct (map set_id (loadHistory J ls)) \<longrightarrow>
        length (fst (deleteQuizSet J X ls)) + 1 = length (loadHistory J ls))
   \<and> (X \<notin> set (map set_id (loadHistory J ls)) \<longrightarrow>
        fst (deleteQuizSet J X ls) = loadHistory J ls)"
proof -
  define H where "H = loadHistory J ls"
  define R where "R = filter (\<lambda>q. set_id q \<noteq> X) H"
  have d: "deleteQuizSet J X ls = (R, setItem STORAGE_KEY (stringify_history J R) ls)"
    by (simp add: deleteQuizSet_def Let_def R_def H_def)
  have 1: "X \<notin> set (map set_id R)"
    by (auto simp: R_def)
  have 2: "roundtrips J R \<longrightarrow> loadHistory J (setItem STORAGE_KEY (stringify_history J R) ls) = R"
    by (simp add: loadHistory_setItem)
  have 3: "X \<in> set (map set_id H) \<and> distinct (map set_id H) \<longrightarrow> length R + 1 = length H"
    using filter_distinct_length [of set_id H X] by (simp add: R_def)
  have 4: "X \<notin> set (map set_id H) \<longrightarrow> R = H"
    using filter_absent [of X set_id H] by (simp add: R_def)
  have e: "filter (\<lambda>q. set_id q \<noteq> X) (loadHistory J ls) = R"
    by (simp add: R_def H_def)
  from 1 2 3 4 show ?thesis
    unfolding d fst_conv snd_conv e H_def by blast
qed

theorem delete_set_witness:
  "roundtrips demo_JSON (fst (deleteQuizSet demo_JSON ''set-1'' store_ba))
   \<and> ''set-1'' \<in> set (map set_id (loadHistory demo_JSON store_ba))
   \<and> distinct (map set_id (loadHistory demo_JSON store_ba))
   \<and> loadHistory demo_JSON (snd (deleteQuizSet demo_JSON ''set-1'' store_ba)) = [set_b]
   \<and> length (fst (deleteQuizSet demo_JSON ''set-1'' store_ba)) + 1
        = length (loadHistory demo_JSON store_ba)
   \<and> ''set-9'' \<notin> set (map set_id (loadHistory demo_JSON store_ba))
   \<and> fst (deleteQuizSet demo_JSON ''set-9'' store_ba) = loadHistory demo_JSON store_ba"
proof -
  have r: "roundtrips demo_JSON (fst (deleteQuizSet demo_JSON ''set-1'' store_ba))"
    unfolding demo_delete by (rule demo_roundtrips)
  note t = delete_set [of demo_JSON "''set-1''" store_ba]
  from t r have l: "loadHistory demo_JSON (snd (deleteQuizSet demo_JSON ''set-1'' store_ba))
      = fst (deleteQuizSet demo_JSON ''set-1'' store_ba)"
    by blast
  from t demo_ids_ba(1,2) have n: "length (fst (deleteQuizSet demo_JSON ''set-1'' store_ba)) + 1
      = length (loadHistory demo_JSON store_ba)"
    by blast
  from delete_set [of demo_JSON "''set-9''" store_ba] demo_ids_ba(3)
  have u: "fst (deleteQuizSet demo_JSON ''set-9'' store_ba) = loadHistory demo_JSON store_ba"
    by blast
  from r demo_ids_ba l n u show ?thesis
    unfolding demo_delete(1) by blast
qed

section \<open>Updating an item\<close>

text \<open>
  Claim C6. For every persisted history \<open>H\<close> (with distinct set ids, as the data model
  requires): if a set \<open>s\<close> with id \<open>setId\<close> exists and contains an item with the id of
  \<open>it\<close>, \<open>updateQuizSetItem setId it\<close> writes \<open>H\<close> with, at the position \<open>i\<close> of \<open>s\<close>,
  the set \<open>s\<close> whose item at the first position \<open>k\<close> of that id is replaced by \<open>it\<close>;
  list update leaves every other item of \<open>s\<close> and every other set as it was. If no set
  of id \<open>setId\<close> contains such an item, the store is returned unchanged; no exception
  is possible in either case.
\<close>

theorem update_item:
  assumes H: "loadHistory J ls = H"
  shows "(distinct (map set_id H) \<and> s \<in> set H \<and> set_id s = setId
            \<and> item_id it \<in> set (map item_id (items s)) \<longrightarrow>
          (\<exists>i k. i < length H \<and> H ! i = s \<and> k < length (items s)
             \<and> item_id (items s ! k) = item_id it
             \<and> (\<forall>m < k. item_id (items s ! m) \<noteq> item_id it)
             \<and> updateQuizSetItem J setId it ls =
                 setItem STORAGE_KEY
                   (stringify_history J (H[i := s\<lparr>items := (items s)[k := it]\<rparr>])) ls
             \<and> (roundtrips J (H[i := s\<lparr>items := (items s)[k := it]\<rparr>]) \<longrightarrow>
                  loadHistory J (updateQuizSetItem J setId it ls) =
                    H[i := s\<lparr>items := (items s)[k := it]\<rparr>])))
       \<and> (\<not> (\<exists>t \<in> set H. set_id t = setId \<and> item_id it \<in> set (map item_id (items t))) \<longrightarrow>
            updateQuizSetItem J setId it ls = ls)"
proof (intro conjI impI)
  assume a: "distinct (map set_id H) \<and> s \<in> set H \<and> set_id s = setId
            \<and> item_id it \<in> set (map item_id (items s))"
  define i where "i = nat (findIndex (\<lambda>q. set_id q = setId) H)"
  define k where "k = nat (findIndex (\<lambda>q. item_id q = item_id it) (items s))"
  from a have "setId \<in> set (map set_id H)" by auto
  then have gi: "findIndex (\<lambda>q. set_id q = setId) H \<ge> 0"
    by (rule findIndex_present)
  from findIndex_found [OF gi] have i: "i < length H" "set_id (H ! i) = setId"
    by (simp_all add: i_def)
  from a obtain j where j: "j < length H" "H ! j = s"
    by (auto simp: in_set_conv_nth)
  with a i have "i = j"
    by (intro distinct_map_index [of set_id H]) auto
  with j have s: "H ! i = s" by simp
  from a have gk: "findIndex (\<lambda>q. item_id q = item_id it) (items s) \<ge> 0"
    by (intro findIndex_present) simp
  from findIndex_found [OF gk]
  have k: "k < length (items s)" "item_id (items s ! k) = item_id it"
    "\<forall>m < k. item_id (items s ! m) \<noteq> item_id it"
    by (simp_all add: k_def)
  have u: "updateQuizSetItem J setId it ls =
      setItem STORAGE_KEY (stringify_history J (H[i := s\<lparr>items := (items s)[k := it]\<rparr>])) ls"
    using gi gk s by (simp add: updateQuizSetItem_def Let_def H i_def [symmetric] k_def [symmetric])
  have "roundtrips J (H[i := s\<lparr>items := (items s)[k := it]\<rparr>]) \<longrightarrow>
      loadHistory J (updateQuizSetItem J setId it ls) = H[i := s\<lparr>items := (items s)[k := it]\<rparr>]"
    by (simp add: u loadHistory_setItem)
  with i s k u show "\<exists>i k. i < length H \<and> H ! i = s \<and> k < length (items s)
             \<and> item_id (items s ! k) = item_id it
             \<and> (\<forall>m < k. item_id (items s ! m) \<noteq> item_id it)
             \<and> updateQuizSetItem J setId it ls =
                 setItem STORAGE_KEY
                   (stringify_history J (H[i := s\<lparr>items := (items s)[k := it]\<rparr>])) ls
             \<and> (roundtrips J (H[i := s\<lparr>items := (items s)[k := it]\<rparr>]) \<longrightarrow>
                  loadHistory J (updateQuizSetItem J setId it ls) =
                    H[i := s\<lparr>items := (items s)[k := it]\<rparr>])"
    by blast
next
  assume n: "\<not> (\<exists>t \<in> set H. set_id t = setId \<and> item_id it \<in> set (map item_id (items t)))"
  show "updateQuizSetItem J setId it ls = ls"
  proof (cases "findIndex (\<lambda>q. set_id q = setId) H \<ge> 0")
    case False
    then show ?thesis by (simp add: updateQuizSetItem_def Let_def H)
  next
    case True
    from findIndex_found [OF True]
    have "H ! nat (findIndex (\<lambda>q. set_id q = setId) H) \<in> set H"
      "set_id (H ! nat (findIndex (\<lambda>q. set_id q = setId) H)) = setId"
      by simp_all
    with n have "item_id it \<notin> set (map item_id (items (H ! nat (findIndex (\<lambda>q. set_id q = setId) H))))"
      by blast
    then have "findIndex (\<lambda>q. item_id q = item_id it)
        (items (H ! nat (findIndex (\<lambda>q. set_id q = setId) H))) < 0"
      by (rule findIndex_absent)
    then show ?thesis by (simp add: updateQuizSetItem_def Let_def H)
  qed
qed

theorem update_item_witness:
  "loadHistory demo_JSON store_ba = [set_b, set_a]
   \<and> distinct (map set_id [set_b, set_a]) \<and> set_a \<in> set [set_b, set_a]
   \<and> set_id set_a = ''set-1''
   \<and> item_id item_a_hinted \<in> set (map item_id (items set_a))
   \<and> roundtrips demo_JSON [set_b, set_a_hinted]
   \<and> loadHistory demo_JSON (updateQuizSetItem demo_JSON ''set-1'' item_a_hinted store_ba)
       = [set_b, set_a_hinted]
   \<and> updateQuizSetItem demo_JSON ''set-1'' item_b store_ba = store_ba
   \<and> updateQuizSetItem demo_JSON ''set-9'' item_a_hinted store_ba = store_ba"
proof -
  have p: "distinct (map set_id [set_b, set_a])" "set_a \<in> set [set_b, set_a]"
    "set_id set_a = ''set-1''" "item_id item_a_hinted \<in> set (map item_id (items set_a))"
    by (simp_all add: set_a_def set_b_def item_a_hinted_def item_a_def)
  from update_item [OF demo_load_ba, of set_a "''set-1''" item_a_hinted] p
  obtain i k where ik: "i < length [set_b, set_a]" "[set_b, set_a] ! i = set_a"
      "k < length (items set_a)"
    and r: "roundtrips demo_JSON ([set_b, set_a][i := set_a\<lparr>items := (items set_a)[k := item_a_hinted]\<rparr>])
      \<longrightarrow> loadHistory demo_JSON (updateQuizSetItem demo_JSON ''set-1'' item_a_hinted store_ba)
        = [set_b, set_a][i := set_a\<lparr>items := (items set_a)[k := item_a_hinted]\<rparr>]"
    by blast
  from ik have "i = 1"
    by (cases i) (auto simp: set_a_def set_b_def)
  moreover from ik have "k = 0"
    by (simp add: set_a_def)
  moreover have "[set_b, set_a][1 := set_a\<lparr>items := (items set_a)[0 := item_a_hinted]\<rparr>]
      = [set_b, set_a_hinted]"
    by (simp add: set_a_hinted_def set_a_def)
  ultimately have 1: "loadHistory demo_JSON (updateQuizSetItem demo_JSON ''set-1'' item_a_hinted store_ba)
       = [set_b, set_a_hinted]"
    using r demo_roundtrips(3) by simp
  have "\<not> (\<exists>t \<in> set [set_b, set_a]. set_id t = ''set-1''
          \<and> item_id item_b \<in> set (map item_id (items t)))"
    by (simp add: set_a_def set_b_def item_a_def item_b_def)
  with update_item [OF demo_load_ba, of _ "''set-1''" item_b]
  have 2: "updateQuizSetItem demo_JSON ''set-1'' item_b store_ba = store_ba"
    by blast
  have "\<not> (\<exists>t \<in> set [set_b, set_a]. set_id t = ''set-9''
          \<and> item_id item_a_hinted \<in> set (map item_id (items t)))"
    by (simp add: set_a_def set_b_def)
  with update_item [OF demo_load_ba, of _ "''set-9''" item_a_hinted]
  have 3: "updateQuizSetItem demo_JSON ''set-9'' item_a_hinted store_ba = store_ba"
    by blast
  from p 1 2 3 demo_load_ba demo_roundtrips(3) show ?thesis
    by blast
qed

section \<open>Advancing through a quiz\<close>

text \<open>
  Claim C2. In state \<open>QUIZ_ACTIVE\<close> with a current set of \<open>n\<close> items: when the index
  is below \<open>n - 1\<close>, \<open>handleNextQuestion\<close> increments it by exactly 1 and changes
  nothing else, so the state stays \<open>QUIZ_ACTIVE\<close> and the index stays in range; when
  the index is \<open>n - 1\<close>, it sets the state to \<open>COMPLETED\<close> and changes nothing else, so
  the current set and the index stay as they were.
\<close>

theorem advance_question:
  assumes "appState a = QUIZ_ACTIVE" and "currentQuizSet a = Some quizSet"
  shows "(int (currentQuestionIndex a) < int (length (items quizSet)) - 1 \<longrightarrow>
            handleNextQuestion a = a\<lparr>currentQuestionIndex := currentQuestionIndex a + 1\<rparr>
          \<and> currentQuestionIndex (handleNextQuestion a) = currentQuestionIndex a + 1
          \<and> currentQuestionIndex (handleNextQuestion a) < length (items quizSet)
          \<and> appState (handleNextQuestion a) = QUIZ_ACTIVE
          \<and> currentQuizSet (handleNextQuestion a) = Some quizSet)
       \<and> (int (currentQuestionIndex a) = int (length (items quizSet)) - 1 \<longrightarrow>
            handleNextQuestion a = a\<lparr>appState := COMPLETED\<rparr>
          \<and> appState (handleNextQuestion a) = COMPLETED
          \<and> currentQuizSet (handleNextQuestion a) = Some quizSet
          \<and> currentQuestionIndex (handleNextQuestion a) = currentQuestionIndex a)"
  using assms by (auto simp: handleNextQuestion_def)

theorem advance_question_witness:
  "appState (quiz_at set_c 0) = QUIZ_ACTIVE \<and> currentQuizSet (quiz_at set_c 0) = Some set_c
   \<and> int (currentQuestionIndex (quiz_at set_c 0)) < int (length (items set_c)) - 1
   \<and> appState (handleNextQuestion (quiz_at set_c 0)) = QUIZ_ACTIVE
   \<and> currentQuestionIndex (handleNextQuestion (quiz_at set_c 0)) = 1
   \<and> appState (quiz_at set_c 2) = QUIZ_ACTIVE \<and> currentQuizSet (quiz_at set_c 2) = Some set_c
   \<and> int (currentQuestionIndex (quiz_at set_c 2)) = int (length (items set_c)) - 1
   \<and> appState (handleNextQuestion (quiz_at set_c 2)) = COMPLETED
   \<and> currentQuizSet (handleNextQuestion (quiz_at set_c 2)) = Some set_c
   \<and> currentQuestionIndex (handleNextQuestion (quiz_at set_c 2)) = 2"
  using advance_question [OF demo_quiz_at(1,2)] advance_question [OF demo_quiz_at(4,5)]
  by (simp add: demo_quiz_at)

section \<open>Deleting from the displayed history\<close>

text \<open>
  Claim C9. In every session state, \<open>handleDeleteHistory X\<close> leaves a displayed
  history without an entry of id \<open>X\<close> (the stored history, filtered) and changes no
  other field: \<open>currentQuizSet\<close>, \<open>currentQuestionIndex\<close> and \<open>appState\<close> are as
  before, whatever the state and whether or not \<open>X\<close> is the id of the current set.
  The state being unchanged, the reload effect does not run.
\<close>

theorem delete_history_frame:
  "X \<notin> set (map set_id (history (fst (handleDeleteHistory J X (a, ls)))))
   \<and> history (fst (handleDeleteHistory J X (a, ls))) =
       filter (\<lambda>q. set_id q \<noteq> X) (loadHistory J ls)
   \<and> currentQuizSet (fst (handleDeleteHistory J X (a, ls))) = currentQuizSet a
   \<and> currentQuestionIndex (fst (handleDeleteHistory J X (a, ls))) = currentQuestionIndex a
   \<and> appState (fst (handleDeleteHistory J X (a, ls))) = appState a
   \<and> fst (handleDeleteHistory J X (a, ls)) =
       a\<lparr>history := filter (\<lambda>q. set_id q \<noteq> X) (loadHistory J ls)\<rparr>
   \<and> reload_effect J (appState a) (handleDeleteHistory J X (a, ls)) =
       handleDeleteHistory J X (a, ls)"
  by (auto simp: handleDeleteHistory_def deleteQuizSet_def Let_def reload_effect_def)

section \<open>Reset\<close>

text \<open>
  Claim C10. The view of \<open>QUIZ_ACTIVE\<close> wires the back button to \<open>resetApp\<close>, as
  the views of \<open>COMPLETED\<close> and \<open>ERROR\<close> wire their home button; and from any state
  \<open>resetApp\<close> gives \<open>IDLE\<close> with no current set, index 0 and no error, the displayed
  history and the loading message being kept.
\<close>

theorem reset_from_any_state:
  "ResetApp \<in> set (render (a\<lparr>appState := QUIZ_ACTIVE\<rparr>))
   \<and> ResetApp \<in> set (render (a\<lparr>appState := COMPLETED\<rparr>))
   \<and> ResetApp \<in> set (render (a\<lparr>appState := ERROR\<rparr>))
   \<and> appState (resetApp a) = IDLE
   \<and> currentQuizSet (resetApp a) = None
   \<and> currentQuestionIndex (resetApp a) = 0
   \<and> error (resetApp a) = None
   \<and> history (resetApp a) = history a
   \<and> loadingMessage (resetApp a) = loadingMessage a"
  by (simp add: render_def resetApp_def)

section \<open>Loading the history\<close>




section \<open>Quiz generation and its caller\<close>

lemma default_error_message_nonempty: "default_error_message \<noteq> []"
  by (simp add: default_error_message_def)

lemma no_items_error_nonempty: "message no_items_error \<noteq> []"
  by (simp add: no_items_error_def)

lemma generateQuizFromImage_cases:
  "generateQuizFromImage J g now img =
     (case g (cleanBase64 img) of
        Rejects e \<Rightarrow> Inl e
      | Responds None \<Rightarrow> Inl no_response_text
      | Responds (Some text) \<Rightarrow>
          if text = [] then Inl no_response_text
          else (case parse_quiz J text of
                  Inl e \<Rightarrow> Inl e
                | Inr data \<Rightarrow>
                    (case data_items data of
                       Inl e \<Rightarrow> Inl e
                     | Inr raw \<Rightarrow>
                         Inr \<lparr>set_id = ''set-'' @ digits now,
                              title = (if data_title data \<noteq> [] then data_title data
                                       else ''Study Session''),
                              createdAt = now,
                              items = map (\<lambda>(index, item). make_item now index item)
                                        (enumerate 0 raw)\<rparr>)))"
  by (simp add: generateQuizFromImage_def Let_def
      split: remote_response.splits option.splits sum.splits)

lemma image_selected_failure:
  "generateQuizFromImage J g now img = Inl e \<Longrightarrow>
     handleImageSelected J g now img (a, ls) = (a', ls') \<Longrightarrow>
     appState a' = ERROR \<and> ls' = ls \<and> currentQuizSet a' = currentQuizSet a
     \<and> error a' = Some (if message e \<noteq> [] then message e else default_error_message)"
  by (auto simp: handleImageSelected_def handleImageSelected_settle_def
      handleImageSelected_try_def handleImageSelected_begin_def handleImageSelected_delayed_def
      reload_effect_def Let_def split: if_splits)

lemma image_selected_empty:
  "generateQuizFromImage J g now img = Inr q \<Longrightarrow> items q = [] \<Longrightarrow>
     handleImageSelected J g now img (a, ls) = (a', ls') \<Longrightarrow>
     appState a' = ERROR \<and> ls' = ls \<and> currentQuizSet a' = currentQuizSet a
     \<and> error a' = Some (message no_items_error)"
  by (auto simp: handleImageSelected_def handleImageSelected_settle_def
      handleImageSelected_try_def handleImageSelected_begin_def handleImageSelected_delayed_def
      reload_effect_def Let_def no_items_error_nonempty split: if_splits)

lemma image_selected_success:
  "generateQuizFromImage J g now img = Inr q \<Longrightarrow> items q \<noteq> [] \<Longrightarrow>
     handleImageSelected J g now img (a, ls) = (a', ls') \<Longrightarrow>
     appState a' = QUIZ_ACTIVE \<and> ls' = saveQuizSet J q ls \<and> currentQuizSet a' = Some q
     \<and> currentQuestionIndex a' = 0 \<and> history a' = loadHistory J (saveQuizSet J q ls)"
  by (auto simp: handleImageSelected_def handleImageSelected_settle_def
      handleImageSelected_try_def handleImageSelected_begin_def handleImageSelected_delayed_def
      reload_effect_def Let_def startQuiz_def split: if_splits)

text \<open>
  Claim C1 as stated fails: when the structured result has zero items,
  \<open>generateQuizFromImage\<close> returns a set with no items instead of failing.
\<close>

theorem generate_empty_quiz_counterexample:
  "generateQuizFromImage demo_JSON demo_remote 7 ''blank'' =
     Inr \<lparr>set_id = ''set-7'', title = ''Blank'', createdAt = 7, items = []\<rparr>"
  by code_simp

text \<open>
  Claim C1, amended. For every remote response, \<open>generateQuizFromImage\<close> propagates
  the error when the remote call rejects, when \<open>JSON.parse\<close> throws on the text and
  when \<open>data.items\<close> is not an array; it fails with the message
  \<open>No response text generated.\<close> when the response has no text or an empty text;
  and otherwise it returns the set built from the structured result, with as many
  items as the result has, zero included. It is the caller that rejects an empty set:
  \<open>handleImageSelected\<close> ends in \<open>ERROR\<close> with a non-empty message and an untouched
  store when generation fails or yields zero items, and ends in \<open>QUIZ_ACTIVE\<close> only
  with a persisted current set of at least one item.
\<close>

theorem generation_failure:
  assumes "handleImageSelected J g now img (a, ls) = (A, L)"
  shows "(\<forall>e. g (cleanBase64 img) = Rejects e \<longrightarrow>
            generateQuizFromImage J g now img = Inl e)
       \<and> (g (cleanBase64 img) = Responds None \<or> g (cleanBase64 img) = Responds (Some []) \<longrightarrow>
            generateQuizFromImage J g now img = Inl no_response_text)
       \<and> (\<forall>text e. g (cleanBase64 img) = Responds (Some text) \<and> text \<noteq> []
              \<and> parse_quiz J text = Inl e \<longrightarrow>
            generateQuizFromImage J g now img = Inl e)
       \<and> (\<forall>text data e. g (cleanBase64 img) = Responds (Some text) \<and> text \<noteq> []
              \<and> parse_quiz J text = Inr data \<and> data_items data = Inl e \<longrightarrow>
            generateQuizFromImage J g now img = Inl e)
       \<and> (\<forall>text data raw. g (cleanBase64 img) = Responds (Some text) \<and> text \<noteq> []
              \<and> parse_quiz J text = Inr data \<and> data_items data = Inr raw \<longrightarrow>
            generateQuizFromImage J g now img =
              Inr \<lparr>set_id = ''set-'' @ digits now,
                   title = (if data_title data \<noteq> [] then data_title data
                            else ''Study Session''),
                   createdAt = now,
                   items = map (\<lambda>(index, item). make_item now index item)
                             (enumerate 0 raw)\<rparr>
          \<and> (\<exists>q. generateQuizFromImage J g now img = Inr q
                \<and> length (items q) = length raw))
       \<and> (\<forall>e. generateQuizFromImage J g now img = Inl e \<longrightarrow>
            appState A = ERROR \<and> L = ls
          \<and> error A = Some (if message e \<noteq> [] then message e else default_error_message)
          \<and> error A \<noteq> None \<and> error A \<noteq> Some [])
       \<and> (\<forall>q. generateQuizFromImage J g now img = Inr q \<and> items q = [] \<longrightarrow>
            appState A = ERROR \<and> error A = Some (message no_items_error) \<and> L = ls)
       \<and> (\<forall>q. generateQuizFromImage J g now img = Inr q \<and> items q \<noteq> [] \<longrightarrow>
            appState A = QUIZ_ACTIVE \<and> currentQuizSet A = Some q
          \<and> currentQuestionIndex A = 0 \<and> L = saveQuizSet J q ls
          \<and> history A = loadHistory J (saveQuizSet J q ls))
       \<and> (appState A = QUIZ_ACTIVE \<or> appState A = ERROR)
       \<and> (appState A = QUIZ_ACTIVE \<longrightarrow> (\<exists>q. currentQuizSet A = Some q \<and> items q \<noteq> []))"
proof -
  have 0: "\<forall>e. g (cleanBase64 img) = Rejects e \<longrightarrow>
            generateQuizFromImage J g now img = Inl e"
    by (simp add: generateQuizFromImage_cases)
  have 1: "g (cleanBase64 img) = Responds None \<or> g (cleanBase64 img) = Responds (Some []) \<longrightarrow>
            generateQuizFromImage J g now img = Inl no_response_text"
    by (auto simp: generateQuizFromImage_cases)
  have 2: "\<forall>text e. g (cleanBase64 img) = Responds (Some text) \<and> text \<noteq> []
              \<and> parse_quiz J text = Inl e \<longrightarrow>
            generateQuizFromImage J g now img = Inl e"
    by (simp add: generateQuizFromImage_cases)
  have 3: "\<forall>text data e. g (cleanBase64 img) = Responds (Some text) \<and> text \<noteq> []
              \<and> parse_quiz J text = Inr data \<and> data_items data = Inl e \<longrightarrow>
            generateQuizFromImage J g now img = Inl e"
    by (simp add: generateQuizFromImage_cases)
  have 4: "\<forall>text data raw. g (cleanBase64 img) = Responds (Some text) \<and> text \<noteq> []
              \<and> parse_quiz J text = Inr data \<and> data_items data = Inr raw \<longrightarrow>
            generateQuizFromImage J g now img =
              Inr \<lparr>set_id = ''set-'' @ digits now,
                   title = (if data_title data \<noteq> [] then data_title data
                            else ''Study Session''),
                   createdAt = now,
                   items = map (\<lambda>(index, item). make_item now index item)
                             (enumerate 0 raw)\<rparr>
          \<and> (\<exists>q. generateQuizFromImage J g now img = Inr q
                \<and> length (items q) = length raw)"
    by (simp add: generateQuizFromImage_cases)
  have 5: "\<forall>e. generateQuizFromImage J g now img = Inl e \<longrightarrow>
            appState A = ERROR \<and> L = ls
          \<and> error A = Some (if message e \<noteq> [] then message e else default_error_message)
          \<and> error A \<noteq> None \<and> error A \<noteq> Some []"
    using image_selected_failure [OF _ assms] default_error_message_nonempty by simp
  have 6: "\<forall>q. generateQuizFromImage J g now img = Inr q \<and> items q = [] \<longrightarrow>
            appState A = ERROR \<and> error A = Some (message no_items_error) \<and> L = ls"
    using image_selected_empty [OF _ _ assms] by simp
  have 7: "\<forall>q. generateQuizFromImage J g now img = Inr q \<and> items q \<noteq> [] \<longrightarrow>
            appState A = QUIZ_ACTIVE \<and> currentQuizSet A = Some q
          \<and> currentQuestionIndex A = 0 \<and> L = saveQuizSet J q ls
          \<and> history A = loadHistory J (saveQuizSet J q ls)"
    using image_selected_success [OF _ _ assms] by simp
  have 8: "(appState A = QUIZ_ACTIVE \<or> appState A = ERROR)
       \<and> (appState A = QUIZ_ACTIVE \<longrightarrow> (\<exists>q. currentQuizSet A = Some q \<and> items q \<noteq> []))"
  proof (cases "generateQuizFromImage J g now img")
    case (Inl e)
    with 5 show ?thesis by simp
  next
    case (Inr q)
    with 6 7 show ?thesis by (cases "items q = []") auto
  qed
  from 8 have 9: "appState A = QUIZ_ACTIVE \<or> appState A = ERROR"
    and 10: "appState A = QUIZ_ACTIVE \<longrightarrow> (\<exists>q. currentQuizSet A = Some q \<and> items q \<noteq> [])"
    by blast+
  show ?thesis
    by (intro conjI) (rule 0 1 2 3 4 5 6 7 9 10)+
qed

theorem generation_failure_witness:
  "generateQuizFromImage demo_JSON demo_remote 7 ''offline'' = Inl (Error ''network down'')
   \<and> appState (fst (handleImageSelected demo_JSON demo_remote 7 ''offline'' (initial_app, store_a)))
       = ERROR
   \<and> error (fst (handleImageSelected demo_JSON demo_remote 7 ''offline'' (initial_app, store_a)))
       = Some ''network down''
   \<and> snd (handleImageSelected demo_JSON demo_remote 7 ''offline'' (initial_app, store_a)) = store_a
   \<and> generateQuizFromImage demo_JSON demo_remote 7 ''mute'' = Inl no_response_text
   \<and> generateQuizFromImage demo_JSON demo_remote 7 ''silent'' = Inl no_response_text
   \<and> generateQuizFromImage demo_JSON demo_remote 7 ''garbled'' = Inl (Error ''Unexpected token'')
   \<and> generateQuizFromImage demo_JSON demo_remote 7 ''shapeless''
       = Inl (Error ''data.items is undefined'')
   \<and> generateQuizFromImage demo_JSON demo_remote 7 ''blank''
       = Inr \<lparr>set_id = ''set-'' @ digits 7, title = ''Blank'', createdAt = 7, items = []\<rparr>
   \<and> appState (fst (handleImageSelected demo_JSON demo_remote 7 ''blank'' (initial_app, store_a)))
       = ERROR
   \<and> error (fst (handleImageSelected demo_JSON demo_remote 7 ''blank'' (initial_app, store_a)))
       = Some (message no_items_error)
   \<and> snd (handleImageSelected demo_JSON demo_remote 7 ''blank'' (initial_app, store_a)) = store_a
   \<and> generateQuizFromImage demo_JSON demo_remote 7 ''page''
       = Inr \<lparr>set_id = ''set-'' @ digits 7, title = ''Study Session'', createdAt = 7,
              items = [make_item 7 0 raw_q]\<rparr>
   \<and> appState (fst (handleImageSelected demo_JSON demo_remote 7 ''page'' (initial_app, store_a)))
       = QUIZ_ACTIVE
   \<and> currentQuestionIndex
        (fst (handleImageSelected demo_JSON demo_remote 7 ''page'' (initial_app, store_a))) = 0"
proof -
  note t = generation_failure [OF prod.collapse [symmetric],
      where J = demo_JSON and g = demo_remote and now = 7 and a = initial_app and ls = store_a]
  have ne: "''{items:'' \<noteq> []" "''{}'' \<noteq> []" "''{items:[]}'' \<noteq> []" "''{items:[q]}'' \<noteq> []"
    by simp_all
  from t [of "''offline''"] demo_generate(3)
  have o1: "generateQuizFromImage demo_JSON demo_remote 7 ''offline'' = Inl (Error ''network down'')"
    by blast
  from t [of "''offline''"] o1
  have o2: "appState (fst (handleImageSelected demo_JSON demo_remote 7 ''offline'' (initial_app, store_a)))
       = ERROR
     \<and> error (fst (handleImageSelected demo_JSON demo_remote 7 ''offline'' (initial_app, store_a)))
       = Some (if message (Error ''network down'') \<noteq> [] then message (Error ''network down'')
               else default_error_message)
     \<and> snd (handleImageSelected demo_JSON demo_remote 7 ''offline'' (initial_app, store_a)) = store_a"
    by blast
  from t [of "''mute''"] demo_generate(1)
  have m: "generateQuizFromImage demo_JSON demo_remote 7 ''mute'' = Inl no_response_text"
    by blast
  from t [of "''silent''"] demo_generate(2)
  have s: "generateQuizFromImage demo_JSON demo_remote 7 ''silent'' = Inl no_response_text"
    by blast
  from t [of "''garbled''"] demo_generate(4,5) ne(1)
  have g: "generateQuizFromImage demo_JSON demo_remote 7 ''garbled'' = Inl (Error ''Unexpected token'')"
    by blast
  have "data_items \<lparr>data_title = [], data_items = Inl (Error ''data.items is undefined'')\<rparr>
      = Inl (Error ''data.items is undefined'')"
    by simp
  with t [of "''shapeless''"] demo_generate(6,7) ne(2)
  have h: "generateQuizFromImage demo_JSON demo_remote 7 ''shapeless''
       = Inl (Error ''data.items is undefined'')"
    by blast
  have "data_items \<lparr>data_title = ''Blank'', data_items = Inr []\<rparr> = Inr []"
    by simp
  with t [of "''blank''"] demo_generate(8,9) ne(3)
  have "generateQuizFromImage demo_JSON demo_remote 7 ''blank'' =
      Inr \<lparr>set_id = ''set-'' @ digits 7,
           title = (if data_title \<lparr>data_title = ''Blank'', data_items = Inr []\<rparr> \<noteq> []
                    then data_title \<lparr>data_title = ''Blank'', data_items = Inr []\<rparr>
                    else ''Study Session''),
           createdAt = 7,
           items = map (\<lambda>(index, item). make_item 7 index item) (enumerate 0 [])\<rparr>"
    by blast
  then have b1: "generateQuizFromImage demo_JSON demo_remote 7 ''blank''
       = Inr \<lparr>set_id = ''set-'' @ digits 7, title = ''Blank'', createdAt = 7, items = []\<rparr>"
    by simp
  have "items \<lparr>set_id = ''set-'' @ digits 7, title = ''Blank'', createdAt = 7, items = []\<rparr> = []"
    by simp
  with t [of "''blank''"] b1
  have b2: "appState (fst (handleImageSelected demo_JSON demo_remote 7 ''blank'' (initial_app, store_a)))
       = ERROR
   \<and> error (fst (handleImageSelected demo_JSON demo_remote 7 ''blank'' (initial_app, store_a)))
       = Some (message no_items_error)
   \<and> snd (handleImageSelected demo_JSON demo_remote 7 ''blank'' (initial_app, store_a)) = store_a"
    by blast
  have "data_items \<lparr>data_title = [], data_items = Inr [raw_q]\<rparr> = Inr [raw_q]"
    by simp
  with t [of "''page''"] demo_generate(10,11) ne(4)
  have "generateQuizFromImage demo_JSON demo_remote 7 ''page'' =
      Inr \<lparr>set_id = ''set-'' @ digits 7,
           title = (if data_title \<lparr>data_title = [], data_items = Inr [raw_q]\<rparr> \<noteq> []
                    then data_title \<lparr>data_title = [], data_items = Inr [raw_q]\<rparr>
                    else ''Study Session''),
           createdAt = 7,
           items = map (\<lambda>(index, item). make_item 7 index item) (enumerate 0 [raw_q])\<rparr>"
    by blast
  then have p1: "generateQuizFromImage demo_JSON demo_remote 7 ''page''
       = Inr \<lparr>set_id = ''set-'' @ digits 7, title = ''Study Session'', createdAt = 7,
              items = [make_item 7 0 raw_q]\<rparr>"
    by simp
  have "items \<lparr>set_id = ''set-'' @ digits 7, title = ''Study Session'', createdAt = 7,
              items = [make_item 7 0 raw_q]\<rparr> \<noteq> []"
    by simp
  with t [of "''page''"] p1
  have p2: "appState (fst (handleImageSelected demo_JSON demo_remote 7 ''page'' (initial_app, store_a)))
       = QUIZ_ACTIVE
   \<and> currentQuestionIndex
        (fst (handleImageSelected demo_JSON demo_remote 7 ''page'' (initial_app, store_a))) = 0"
    by blast
  from o1 o2 m s g h b1 b2 p1 p2 show ?thesis by simp
qed

section \<open>Cached hints\<close>

text \<open>No item the program builds has an empty string in its hint cache: a new item
  has an empty cache, and the only text ever written is the result of
  \<open>generateInteractiveHint\<close>, which is never empty.\<close>

lemma hint_text_nonempty: "fst (generateInteractiveHint g q a level context) \<noteq> []"
  by (simp add: generateInteractiveHint_def Let_def hint_failed_def hint_fallback_def
      split: remote_response.splits option.splits)

lemma set_js_assign: "set (js_assign xs i v) \<subseteq> insert (Some v) (insert None (set xs))"
proof (cases "i < length xs")
  case True
  then show ?thesis
    using set_update_subset_insert [of xs i "Some v"] by (auto simp: js_assign_def)
next
  case False
  then show ?thesis by (auto simp: js_assign_def)
qed

lemma handleGetHint_updates:
  "updates (handleGetHint g item c) =
     (if currentHintLevel c + 1 > 3 then []
      else if truthy (js_index (generatedHints item) (currentHintLevel c)) then []
      else [item\<lparr>generatedHints :=
              js_assign (generatedHints item) (currentHintLevel c)
                (fst (generateInteractiveHint g (question item) (answer item)
                        (currentHintLevel c + 1) (originalContext item)))\<rparr>])"
  by (simp add: handleGetHint_def Let_def split: prod.split)

lemma handleGetHint_keeps_nonempty:
  assumes "Some [] \<notin> set (generatedHints item)"
    and "updated \<in> set (updates (handleGetHint g item c))"
  shows "Some [] \<notin> set (generatedHints updated)"
proof -
  define hintText where "hintText = fst (generateInteractiveHint g (question item) (answer item)
      (currentHintLevel c + 1) (originalContext item))"
  have ne: "hintText \<noteq> []"
    unfolding hintText_def by (rule hint_text_nonempty)
  from assms(2) have "updated =
      item\<lparr>generatedHints := js_assign (generatedHints item) (currentHintLevel c) hintText\<rparr>"
    unfolding handleGetHint_updates hintText_def by (simp split: if_splits)
  then have "set (generatedHints updated)
      \<subseteq> insert (Some hintText) (insert None (set (generatedHints item)))"
    using set_js_assign [of "generatedHints item" "currentHintLevel c" hintText] by simp
  with assms(1) ne show ?thesis by auto
qed

lemma reachable_hints_nonempty:
  "reachable_item item \<Longrightarrow> Some [] \<notin> set (generatedHints item)"
proof (induction rule: reachable_item.induct)
  case (created timestamp index raw)
  show ?case by (simp add: make_item_def)
next
  case (hinted item updated generateContent c)
  from hinted.IH hinted.hyps(2) show ?case
    by (rule handleGetHint_keeps_nonempty)
qed

text \<open>
  Claim C8. For every quiz item the program builds and every level \<open>k\<close> in 1..3, if
  position \<open>k - 1\<close> of \<open>generatedHints\<close> is set, \<open>handleGetHint\<close> escalating to level
  \<open>k\<close> makes no remote call and no call of \<open>onUpdateItem\<close> (the item and its cache
  stay as they are); it only sets the level to \<open>k\<close>, at which the cached text is what
  the card displays.
\<close>

theorem cached_hint:
  assumes "reachable_item item"
    and "k \<in> {1, 2, 3}" and "currentHintLevel c + 1 = k"
    and "js_index (generatedHints item) (k - 1) = Some text"
  shows "remote_calls (handleGetHint g item c) = []
       \<and> updates (handleGetHint g item c) = []
       \<and> card_after (handleGetHint g item c) = c\<lparr>currentHintLevel := k\<rparr>
       \<and> js_index (generatedHints item) (currentHintLevel (card_after (handleGetHint g item c)) - 1)
           = Some text
       \<and> (\<not> loadingHint c \<longrightarrow>
            renderHintContent item (card_after (handleGetHint g item c)) = Some text)"
proof -
  from assms(4) have "k - 1 < length (generatedHints item)"
    and "generatedHints item ! (k - 1) = Some text"
    by (auto simp: js_index_def split: if_splits)
  then have "Some text \<in> set (generatedHints item)"
    by (metis nth_mem)
  with reachable_hints_nonempty [OF assms(1)] have "text \<noteq> []"
    by auto
  with assms(2-4) show ?thesis
    by (auto simp: handleGetHint_def Let_def truthy_def renderHintContent_def)
qed

theorem cached_hint_witness:
  "reachable_item item_fresh_hinted
   \<and> (1::nat) \<in> {1, 2, 3} \<and> currentHintLevel fresh_card + 1 = 1
   \<and> js_index (generatedHints item_fresh_hinted) (1 - 1) = Some ''an even number''
   \<and> \<not> loadingHint fresh_card
   \<and> remote_calls (handleGetHint demo_hint_remote item_fresh_hinted fresh_card) = []
   \<and> updates (handleGetHint demo_hint_remote item_fresh_hinted fresh_card) = []
   \<and> renderHintContent item_fresh_hinted
        (card_after (handleGetHint demo_hint_remote item_fresh_hinted fresh_card))
       = Some ''an even number''"
proof -
  have k: "(1::nat) \<in> {1, 2, 3}" by simp
  note t = cached_hint [OF demo_reachable k demo_hint(3) demo_hint(2), of demo_hint_remote]
  from t have 1: "remote_calls (handleGetHint demo_hint_remote item_fresh_hinted fresh_card) = []"
    by (rule conjunct1)
  from t have 2: "updates (handleGetHint demo_hint_remote item_fresh_hinted fresh_card) = []"
    by (rule conjunct1 [OF conjunct2])
  from t have "\<not> loadingHint fresh_card \<longrightarrow>
      renderHintContent item_fresh_hinted
        (card_after (handleGetHint demo_hint_remote item_fresh_hinted fresh_card))
       = Some ''an even number''"
    by (rule conjunct2 [OF conjunct2 [OF conjunct2 [OF conjunct2]]])
  with demo_hint(4) have 3: "renderHintContent item_fresh_hinted
        (card_after (handleGetHint demo_hint_remote item_fresh_hinted fresh_card))
       = Some ''an even number''"
    by (rule rev_mp)
  show ?thesis
    by (intro conjI) (rule demo_reachable k demo_hint(2,3,4) 1 2 3)+
qed

end
